theory Spec2Isabelle
  imports Complex_Main "HOL-Library.AList"
begin

section \<open>Values, exceptions and the float built-ins\<close>

text \<open>
  The values that reach the option table of \<^verbatim>\<open>apex/amp/frontend.py\<close>: \<^verbatim>\<open>None\<close>,
  booleans, integers, floats, strings and \<^verbatim>\<open>torch.dtype\<close> objects. Python's \<^verbatim>\<open>bool\<close>
  and \<^verbatim>\<open>int\<close> are kept apart, because the source tests \<^verbatim>\<open>value is True\<close>, which the
  integer \<^verbatim>\<open>1\<close> does not pass. The type of floats is a parameter \<open>'f\<close>: the source
  never computes with a float, it only converts to one.
\<close>

datatype dtype = float16 | float32 | float64

datatype 'f pyval =
    PNone
  | PBool bool
  | PInt int
  | PFloat 'f
  | PStr string
  | PDtype dtype

text \<open>
  Exceptions. The three with a message are raised by the source itself; \<open>TypeError\<close>,
  \<open>ValueError\<close> and \<open>OverflowError\<close> are what the built-in \<^verbatim>\<open>float(x)\<close> raises.
\<close>

datatype pyerr =
    AttributeError string
  | AssertionError string
  | RuntimeError string
  | TypeError
  | ValueError
  | OverflowError

text \<open>
  What the interpreter provides for floats: the literal \<^verbatim>\<open>1.0\<close>, the conversion of an
  integer (\<open>None\<close> where CPython raises \<^verbatim>\<open>OverflowError\<close>), the parser of
  \<^verbatim>\<open>float(str)\<close> (\<open>None\<close> where CPython raises \<^verbatim>\<open>ValueError\<close>), and the truth value
  of a float.
\<close>

record 'f float_builtins =
  float_one :: 'f
  float_of_int :: "int \<Rightarrow> 'f option"
  float_of_str :: "string \<Rightarrow> 'f option"
  float_truth :: "'f \<Rightarrow> bool"

text \<open>
  The built-in \<^verbatim>\<open>float(x)\<close>: a float is returned as it is, a \<^verbatim>\<open>bool\<close> is an \<^verbatim>\<open>int\<close>,
  a string is parsed, and \<^verbatim>\<open>None\<close> or a dtype (neither has \<^verbatim>\<open>__float__\<close>) is a
  \<^verbatim>\<open>TypeError\<close>.
\<close>

fun py_float :: "'f float_builtins \<Rightarrow> 'f pyval \<Rightarrow> pyerr + 'f" where
  "py_float B (PFloat x) = Inr x"
| "py_float B (PBool b) =
     (case float_of_int B (if b then 1 else 0) of
        None \<Rightarrow> Inl OverflowError | Some x \<Rightarrow> Inr x)"
| "py_float B (PInt i) =
     (case float_of_int B i of None \<Rightarrow> Inl OverflowError | Some x \<Rightarrow> Inr x)"
| "py_float B (PStr s) =
     (case float_of_str B s of None \<Rightarrow> Inl ValueError | Some x \<Rightarrow> Inr x)"
| "py_float B PNone = Inl TypeError"
| "py_float B (PDtype d) = Inl TypeError"

text \<open>Truth value of an object, as \<^verbatim>\<open>if x:\<close> tests it.\<close>

fun py_truth :: "'f float_builtins \<Rightarrow> 'f pyval \<Rightarrow> bool" where
  "py_truth B PNone = False"
| "py_truth B (PBool b) = b"
| "py_truth B (PInt i) = (i \<noteq> 0)"
| "py_truth B (PFloat x) = float_truth B x"
| "py_truth B (PStr s) = (s \<noteq> [])"
| "py_truth B (PDtype d) = True"

text \<open>Sequencing of statements that may raise.\<close>

fun and_then :: "pyerr + 'a \<Rightarrow> ('a \<Rightarrow> pyerr + 'b) \<Rightarrow> pyerr + 'b" where
  "and_then (Inl e) f = Inl e"
| "and_then (Inr x) f = f x"

section \<open>The class \<open>Properties\<close>\<close>

text \<open>
  A \<^verbatim>\<open>Properties\<close> object has one attribute, the dict \<^verbatim>\<open>options\<close>. A Python dict keeps
  insertion order and assigning to an existing key keeps the key's place, which is what
  \<^const>\<open>AList.update\<close> does on an association list.

  \<^verbatim>\<open>__init__\<close> is the only code that runs while \<^verbatim>\<open>"options"\<close> is not yet in
  \<^verbatim>\<open>self.__dict__\<close>; its one assignment takes the \<^verbatim>\<open>super().__setattr__\<close> branch of
  \<^verbatim>\<open>__setattr__\<close> and creates the attribute. From then on the test
  \<^verbatim>\<open>"options" in self.__dict__\<close> is true, so the functions below are the bodies of
  \<^verbatim>\<open>__getattr__\<close> and \<^verbatim>\<open>__setattr__\<close> under that test.
\<close>

record 'f Properties =
  options :: "(string \<times> 'f pyval) list"

definition Properties_init :: "'f float_builtins \<Rightarrow> 'f Properties" where
  "Properties_init B = \<lparr>options =
     [(''enabled'', PBool False),
      (''opt_level'', PNone),
      (''cast_model_type'', PNone),
      (''patch_torch_functions'', PBool False),
      (''keep_batchnorm_fp32'', PNone),
      (''master_weights'', PBool False),
      (''loss_scale'', PFloat (float_one B))]\<rparr>"

text \<open>\<^verbatim>\<open>name in d\<close> and \<^verbatim>\<open>d[name] = v\<close> for a key that may or may not be present.\<close>

definition dict_contains :: "(string \<times> 'v) list \<Rightarrow> string \<Rightarrow> bool" where
  "dict_contains d k = (k \<in> set (map fst d))"

definition store :: "'f Properties \<Rightarrow> string \<Rightarrow> 'f pyval \<Rightarrow> 'f Properties" where
  "store self name v = self\<lparr>options := AList.update name v (options self)\<rparr>"

definition no_attribute :: "string \<Rightarrow> string" where
  "no_attribute name =
     [CHR 0x27] @ ''Properties'' @ [CHR 0x27] @ '' object has no attribute ''
       @ [CHR 0x27] @ name @ [CHR 0x27]"

definition Properties_getattr :: "'f Properties \<Rightarrow> string \<Rightarrow> pyerr + 'f pyval" where
  "Properties_getattr self name =
     (case map_of (options self) name of
        Some v \<Rightarrow> Inr v
      | None \<Rightarrow> Inl (AttributeError (no_attribute name)))"

definition keep_batchnorm_msg :: string where
  "keep_batchnorm_msg =
     ''keep_batchnorm_fp32 must be a boolean, the string 'True' or 'False', ''
       @ ''or None''"

definition Properties_setattr ::
  "'f float_builtins \<Rightarrow> 'f Properties \<Rightarrow> string \<Rightarrow> 'f pyval \<Rightarrow> pyerr + 'f Properties" where
  "Properties_setattr B self name v =
     (if dict_contains (options self) name then
        if name = ''loss_scale'' then
          if v = PStr ''dynamic'' then Inr (store self name v)
          else and_then (py_float B v) (\<lambda>x. Inr (store self name (PFloat x)))
        else if name = ''keep_batchnorm_fp32'' then
          if v = PStr ''False'' then Inr (store self name (PBool False))
          else if v = PStr ''True'' then Inr (store self name (PBool True))
          else if v = PBool True \<or> v = PBool False \<or> v = PNone
            then Inr (store self name v)
            else Inl (AssertionError keep_batchnorm_msg)
        else Inr (store self name v)
      else Inr self)"

section \<open>The presets \<open>O0\<close> to \<open>O3\<close>\<close>

text \<open>
  Each preset's \<^verbatim>\<open>__call__\<close> is seven attribute assignments in a row, every one routed
  through \<^verbatim>\<open>__setattr__\<close>, and returns the object it was given.
\<close>

definition O3 :: "'f float_builtins \<Rightarrow> 'f Properties \<Rightarrow> pyerr + 'f Properties" where
  "O3 B properties =
     and_then (Properties_setattr B properties ''enabled'' (PBool True)) (\<lambda>p.
     and_then (Properties_setattr B p ''opt_level'' (PStr ''O3'')) (\<lambda>p.
     and_then (Properties_setattr B p ''cast_model_type'' (PDtype float16)) (\<lambda>p.
     and_then (Properties_setattr B p ''patch_torch_functions'' (PBool False)) (\<lambda>p.
     and_then (Properties_setattr B p ''keep_batchnorm_fp32'' (PBool False)) (\<lambda>p.
     and_then (Properties_setattr B p ''master_weights'' (PBool False)) (\<lambda>p.
     Properties_setattr B p ''loss_scale'' (PFloat (float_one B))))))))"

definition O2 :: "'f float_builtins \<Rightarrow> 'f Properties \<Rightarrow> pyerr + 'f Properties" where
  "O2 B properties =
     and_then (Properties_setattr B properties ''enabled'' (PBool True)) (\<lambda>p.
     and_then (Properties_setattr B p ''opt_level'' (PStr ''O2'')) (\<lambda>p.
     and_then (Properties_setattr B p ''cast_model_type'' (PDtype float16)) (\<lambda>p.
     and_then (Properties_setattr B p ''patch_torch_functions'' (PBool False)) (\<lambda>p.
     and_then (Properties_setattr B p ''keep_batchnorm_fp32'' (PBool True)) (\<lambda>p.
     and_then (Properties_setattr B p ''master_weights'' (PBool True)) (\<lambda>p.
     Properties_setattr B p ''loss_scale'' (PStr ''dynamic'')))))))"

definition O1 :: "'f float_builtins \<Rightarrow> 'f Properties \<Rightarrow> pyerr + 'f Properties" where
  "O1 B properties =
     and_then (Properties_setattr B properties ''enabled'' (PBool True)) (\<lambda>p.
     and_then (Properties_setattr B p ''opt_level'' (PStr ''O1'')) (\<lambda>p.
     and_then (Properties_setattr B p ''cast_model_type'' (PBool False)) (\<lambda>p.
     and_then (Properties_setattr B p ''patch_torch_functions'' (PBool True)) (\<lambda>p.
     and_then (Properties_setattr B p ''keep_batchnorm_fp32'' PNone) (\<lambda>p.
     and_then (Properties_setattr B p ''master_weights'' (PBool False)) (\<lambda>p.
     Properties_setattr B p ''loss_scale'' (PStr ''dynamic'')))))))"

definition O0 :: "'f float_builtins \<Rightarrow> 'f Properties \<Rightarrow> pyerr + 'f Properties" where
  "O0 B properties =
     and_then (Properties_setattr B properties ''enabled'' (PBool True)) (\<lambda>p.
     and_then (Properties_setattr B p ''opt_level'' (PStr ''O0'')) (\<lambda>p.
     and_then (Properties_setattr B p ''cast_model_type'' (PDtype float32)) (\<lambda>p.
     and_then (Properties_setattr B p ''patch_torch_functions'' (PBool False)) (\<lambda>p.
     and_then (Properties_setattr B p ''keep_batchnorm_fp32'' PNone) (\<lambda>p.
     and_then (Properties_setattr B p ''master_weights'' (PBool False)) (\<lambda>p.
     Properties_setattr B p ''loss_scale'' (PFloat (float_one B))))))))"

definition opt_levels ::
  "(string \<times> ('f float_builtins \<Rightarrow> 'f Properties \<Rightarrow> pyerr + 'f Properties)) list" where
  "opt_levels = [(''O3'', O3), (''O2'', O2), (''O1'', O1), (''O0'', O0)]"

section \<open>The shared state and \<open>warn_or_err\<close>\<close>

text \<open>
  \<^verbatim>\<open>_amp_state\<close> is the one instance of \<^verbatim>\<open>AmpState\<close>. Its constructor sets only
  \<^verbatim>\<open>hard_override\<close>; the attribute \<^verbatim>\<open>opt_properties\<close> does not exist until
  \<^verbatim>\<open>initialize\<close> assigns it, hence the \<open>option\<close>. Nothing else holds a reference to
  the \<^verbatim>\<open>Properties\<close> object stored there, so it is kept in the record by value.
\<close>

record 'f AmpState =
  hard_override :: "'f pyval"
  opt_properties :: "'f Properties option"

definition AmpState_init :: "'f AmpState" where
  "AmpState_init = \<lparr>hard_override = PBool False, opt_properties = None\<rparr>"

definition hard_override_hint :: string where
  "hard_override_hint =
     ''  If you're sure you know what you're doing, supply ''
       @ ''hard_override=True to amp.initialize.''"

text \<open>
  \<^verbatim>\<open>warn_or_err\<close> reads the state and does not change it. The result is the outcome
  together with the lines written by \<^verbatim>\<open>print\<close>.
\<close>

definition warn_or_err ::
  "'f float_builtins \<Rightarrow> 'f AmpState \<Rightarrow> string \<Rightarrow> (pyerr + unit) \<times> string list" where
  "warn_or_err B st msg =
     (if py_truth B (hard_override st) then (Inr (), [''Warning:  '' @ msg])
      else (Inl (RuntimeError (msg @ hard_override_hint)), []))"

section \<open>\<open>initialize\<close>\<close>

text \<open>
  \<^verbatim>\<open>opt_level\<close> is documented as a string and defaults to \<^verbatim>\<open>None\<close>:
  a \<open>string option\<close>. \<^verbatim>\<open>kwargs\<close> is the dict of the remaining keyword arguments in call
  order. The calls of \<^verbatim>\<open>print\<close> in \<^verbatim>\<open>initialize\<close> only format strings and values
  already computed and cannot raise; they are left out. \<^verbatim>\<open>_initialize\<close> is not part of
  this file of the repository: it is the parameter \<open>ext\<close>, which gets the models, the
  optimizers, the resolved properties and the shared state, and may change the state.
\<close>

definition format_opt_level :: "string option \<Rightarrow> string" where
  "format_opt_level opt_level = (case opt_level of None \<Rightarrow> ''None'' | Some s \<Rightarrow> s)"

definition options_are :: string where
  "options_are = ''Options are 'O0', 'O1', 'O2', 'O3'.''"

text \<open>
  The loop over \<^verbatim>\<open>kwargs.items()\<close>. It works on the shared \<^verbatim>\<open>Properties\<close> object in
  place, so when an iteration raises, the object keeps what earlier iterations stored:
  the second component is the object as the loop leaves it.
\<close>

fun process_overrides ::
  "'f float_builtins \<Rightarrow> (string \<times> 'f pyval) list \<Rightarrow> 'f Properties
     \<Rightarrow> pyerr option \<times> 'f Properties" where
  "process_overrides B [] p = (None, p)"
| "process_overrides B ((k, v) # kwargs) p =
     (if \<not> dict_contains (options p) k
        then (Some (RuntimeError (''Unexpected kwarg '' @ k)), p)
      else if v \<noteq> PNone then
        (case Properties_setattr B p k v of
           Inl e \<Rightarrow> (Some e, p)
         | Inr p' \<Rightarrow> process_overrides B kwargs p')
      else process_overrides B kwargs p)"

definition initialize ::
  "'f float_builtins
     \<Rightarrow> ('m \<Rightarrow> 'o \<Rightarrow> 'f Properties \<Rightarrow> 'f AmpState \<Rightarrow> (pyerr + 'm \<times> 'o) \<times> 'f AmpState)
     \<Rightarrow> 'm \<Rightarrow> 'o \<Rightarrow> bool \<Rightarrow> string option \<Rightarrow> (string \<times> 'f pyval) list
     \<Rightarrow> 'f AmpState \<Rightarrow> (pyerr + 'm \<times> 'o) \<times> 'f AmpState" where
  "initialize B ext models optimizers enabled opt_level kwargs st =
     (if \<not> enabled then
        (let st1 = (case map_of kwargs ''hard_override'' of
                      Some v \<Rightarrow> st\<lparr>hard_override := v\<rparr>
                    | None \<Rightarrow> st)
         in (Inr (models, optimizers), st1\<lparr>opt_properties := Some (Properties_init B)\<rparr>))
      else
        (case Option.bind opt_level (map_of opt_levels) of
           None \<Rightarrow>
             (Inl (RuntimeError (''Unexpected optimization level ''
                     @ format_opt_level opt_level @ ''. '' @ options_are)), st)
         | Some preset \<Rightarrow>
             (case preset B (Properties_init B) of
                Inl e \<Rightarrow> (Inl e, st)
              | Inr p \<Rightarrow>
                  (case process_overrides B kwargs p of
                     (Some e, p') \<Rightarrow> (Inl e, st\<lparr>opt_properties := Some p'\<rparr>)
                   | (None, p') \<Rightarrow>
                       ext models optimizers p' (st\<lparr>opt_properties := Some p'\<rparr>)))))"

section \<open>An interpreter instance for running the model\<close>

text \<open>
  To evaluate the model on concrete calls, the float built-ins are instantiated with exact
  rationals: \<^verbatim>\<open>float(str)\<close> reads an unsigned decimal numeral (digits with an optional
  point) and rejects every other string. This is not the whole of CPython's parser and it
  does not round; it gives CPython's result on the inputs used below, \<^verbatim>\<open>"128.0"\<close>
  (exactly representable) and strings that are no numeral at all.
\<close>

definition digit_of :: "char \<Rightarrow> nat option" where
  "digit_of c = (let n = (of_char c :: nat) in if 48 \<le> n \<and> n \<le> 57 then Some (n - 48) else None)"

fun parse_digits :: "nat \<Rightarrow> string \<Rightarrow> nat option" where
  "parse_digits acc [] = Some acc"
| "parse_digits acc (c # cs) =
     (case digit_of c of None \<Rightarrow> None | Some d \<Rightarrow> parse_digits (10 * acc + d) cs)"

definition decimal_of_str :: "string \<Rightarrow> rat option" where
  "decimal_of_str s =
     (let ip = takeWhile (\<lambda>c. c \<noteq> CHR ''.'') s;
          fp = drop 1 (dropWhile (\<lambda>c. c \<noteq> CHR ''.'') s)
      in if ip = [] \<and> fp = [] then None
         else (case parse_digits 0 ip of
                 None \<Rightarrow> None
               | Some a \<Rightarrow>
                   (case parse_digits 0 fp of
                      None \<Rightarrow> None
                    | Some b \<Rightarrow> Some (of_nat a + of_nat b / 10 ^ length fp))))"

definition exact_builtins :: "rat float_builtins" where
  "exact_builtins =
     \<lparr>float_one = 1,
      float_of_int = (\<lambda>i. Some (of_int i)),
      float_of_str = decimal_of_str,
      float_truth = (\<lambda>x. x \<noteq> 0)\<rparr>"

text \<open>A stand-in for \<^verbatim>\<open>_initialize\<close> that hands back what it was given.\<close>

definition pass_through ::
  "'m \<Rightarrow> 'o \<Rightarrow> 'f Properties \<Rightarrow> 'f AmpState \<Rightarrow> (pyerr + 'm \<times> 'o) \<times> 'f AmpState" where
  "pass_through models optimizers p st = (Inr (models, optimizers), st)"

section \<open>What the specification says a stored value is\<close>

text \<open>
  The seven recognised option names, in the order of \<^verbatim>\<open>Properties.__init__\<close>.
\<close>

definition option_keys :: "string list" where
  "option_keys =
     [''enabled'', ''opt_level'', ''cast_model_type'', ''patch_torch_functions'',
      ''keep_batchnorm_fp32'', ''master_weights'', ''loss_scale'']"

text \<open>The four names \<^verbatim>\<open>initialize\<close> accepts as \<^verbatim>\<open>opt_level\<close>.\<close>

definition recognised_levels :: "string option set" where
  "recognised_levels = {Some ''O0'', Some ''O1'', Some ''O2'', Some ''O3''}"

text \<open>
  The coercion rules of the specification, written by the form of the value rather than
  by the tests of the source: what a \<^verbatim>\<open>get\<close> returns after a \<^verbatim>\<open>set\<close> of \<open>v\<close>, or the
  error the \<^verbatim>\<open>set\<close> fails with. For \<^verbatim>\<open>loss_scale\<close> the errors are the ones of
  \<^verbatim>\<open>float\<close>, each with its own class.
\<close>

definition coerced_loss_scale :: "'f float_builtins \<Rightarrow> 'f pyval \<Rightarrow> pyerr + 'f pyval" where
  "coerced_loss_scale B v =
     (case v of
        PStr s \<Rightarrow>
          if s = ''dynamic'' then Inr (PStr ''dynamic'')
          else (case float_of_str B s of
                  Some x \<Rightarrow> Inr (PFloat x)
                | None \<Rightarrow> Inl ValueError)
      | PFloat x \<Rightarrow> Inr (PFloat x)
      | PInt i \<Rightarrow>
          (case float_of_int B i of
             Some x \<Rightarrow> Inr (PFloat x)
           | None \<Rightarrow> Inl OverflowError)
      | PBool b \<Rightarrow>
          (case float_of_int B (if b then 1 else 0) of
             Some x \<Rightarrow> Inr (PFloat x)
           | None \<Rightarrow> Inl OverflowError)
      | PNone \<Rightarrow> Inl TypeError
      | PDtype d \<Rightarrow> Inl TypeError)"

definition coerced_keep_batchnorm_fp32 :: "'f pyval \<Rightarrow> pyerr + 'f pyval" where
  "coerced_keep_batchnorm_fp32 v =
     (case v of
        PStr s \<Rightarrow>
          if s = ''True'' then Inr (PBool True)
          else if s = ''False'' then Inr (PBool False)
          else Inl (AssertionError keep_batchnorm_msg)
      | PBool b \<Rightarrow> Inr (PBool b)
      | PNone \<Rightarrow> Inr PNone
      | PInt i \<Rightarrow> Inl (AssertionError keep_batchnorm_msg)
      | PFloat x \<Rightarrow> Inl (AssertionError keep_batchnorm_msg)
      | PDtype d \<Rightarrow> Inl (AssertionError keep_batchnorm_msg))"

text \<open>A \<^verbatim>\<open>set\<close> followed by a \<^verbatim>\<open>get\<close> of the same name.\<close>

definition set_then_get ::
  "'f float_builtins \<Rightarrow> 'f Properties \<Rightarrow> string \<Rightarrow> 'f pyval \<Rightarrow> pyerr + 'f pyval" where
  "set_then_get B p name v =
     and_then (Properties_setattr B p name v) (\<lambda>p'. Properties_getattr p' name)"

section \<open>Facts about the option table\<close>

lemmas model_defs = Properties_setattr_def Properties_init_def store_def dict_contains_def

lemma init_keys: "map fst (options (Properties_init B)) = option_keys"
  by (simp add: Properties_init_def option_keys_def)

lemma store_keys:
  "dict_contains (options p) k \<Longrightarrow> map fst (options (store p k v)) = map fst (options p)"
  by (simp add: store_def dict_contains_def update_keys)

text \<open>\<^verbatim>\<open>__setattr__\<close> never adds or removes a key.\<close>

lemma setattr_keys:
  "Properties_setattr B p k v = Inr p' \<Longrightarrow> map fst (options p') = map fst (options p)"
proof (cases "dict_contains (options p) k")
  case False
  assume "Properties_setattr B p k v = Inr p'"
  with False show ?thesis by (simp add: Properties_setattr_def)
next
  case True
  assume a: "Properties_setattr B p k v = Inr p'"
  from a True obtain w where "p' = store p k w"
    by (cases "py_float B v") (auto simp: Properties_setattr_def split: if_splits)
  with True show ?thesis by (simp add: store_keys)
qed

lemma setattr_contains:
  "Properties_setattr B p k v = Inr p' \<Longrightarrow>
   dict_contains (options p') k' = dict_contains (options p) k'"
  by (simp add: dict_contains_def setattr_keys)

lemma getattr_store: "Properties_getattr (store p k v) k = Inr v"
  by (simp add: Properties_getattr_def store_def update_conv')

lemma py_float_coerced:
  "v \<noteq> PStr ''dynamic'' \<Longrightarrow>
   and_then (py_float B v) (\<lambda>x. Inr (PFloat x)) = coerced_loss_scale B v"
  by (cases v) (auto simp: coerced_loss_scale_def split: option.splits)

lemma exact_parse_128: "float_of_str exact_builtins ''128.0'' = Some 128"
  by (simp add: exact_builtins_def decimal_of_str_def digit_of_def)

lemma exact_parse_abc: "float_of_str exact_builtins ''abc'' = None"
  by (simp add: exact_builtins_def decimal_of_str_def digit_of_def)

subsection \<open>Each preset on a fresh object\<close>

lemma O0_fresh:
  "O0 B (Properties_init B) = Inr \<lparr>options =
       [(''enabled'', PBool True),
        (''opt_level'', PStr ''O0''),
        (''cast_model_type'', PDtype float32),
        (''patch_torch_functions'', PBool False),
        (''keep_batchnorm_fp32'', PNone),
        (''master_weights'', PBool False),
        (''loss_scale'', PFloat (float_one B))]\<rparr>"
  by (simp add: O0_def model_defs)

lemma O1_fresh:
  "O1 B (Properties_init B) = Inr \<lparr>options =
       [(''enabled'', PBool True),
        (''opt_level'', PStr ''O1''),
        (''cast_model_type'', PBool False),
        (''patch_torch_functions'', PBool True),
        (''keep_batchnorm_fp32'', PNone),
        (''master_weights'', PBool False),
        (''loss_scale'', PStr ''dynamic'')]\<rparr>"
  by (simp add: O1_def model_defs)

lemma O2_fresh:
  "O2 B (Properties_init B) = Inr \<lparr>options =
       [(''enabled'', PBool True),
        (''opt_level'', PStr ''O2''),
        (''cast_model_type'', PDtype float16),
        (''patch_torch_functions'', PBool False),
        (''keep_batchnorm_fp32'', PBool True),
        (''master_weights'', PBool True),
        (''loss_scale'', PStr ''dynamic'')]\<rparr>"
  by (simp add: O2_def model_defs)

lemma O3_fresh:
  "O3 B (Properties_init B) = Inr \<lparr>options =
       [(''enabled'', PBool True),
        (''opt_level'', PStr ''O3''),
        (''cast_model_type'', PDtype float16),
        (''patch_torch_functions'', PBool False),
        (''keep_batchnorm_fp32'', PBool False),
        (''master_weights'', PBool False),
        (''loss_scale'', PFloat (float_one B))]\<rparr>"
  by (simp add: O3_def model_defs)

lemma preset_resolves:
  assumes "opt_level \<in> recognised_levels"
  shows "\<exists>preset p. Option.bind opt_level (map_of opt_levels) = Some preset
           \<and> preset B (Properties_init B) = Inr p
           \<and> map fst (options p) = option_keys"
proof -
  from assms consider "opt_level = Some ''O0''" | "opt_level = Some ''O1''"
    | "opt_level = Some ''O2''" | "opt_level = Some ''O3''"
    by (auto simp: recognised_levels_def)
  then show ?thesis
  proof cases
    case 1
    then show ?thesis by (simp add: opt_levels_def O0_fresh option_keys_def)
  next
    case 2
    then show ?thesis by (simp add: opt_levels_def O1_fresh option_keys_def)
  next
    case 3
    then show ?thesis by (simp add: opt_levels_def O2_fresh option_keys_def)
  next
    case 4
    then show ?thesis by (simp add: opt_levels_def O3_fresh option_keys_def)
  qed
qed

lemma bad_level_lookup:
  "opt_level \<notin> recognised_levels \<Longrightarrow> Option.bind opt_level (map_of opt_levels) = None"
  by (cases opt_level) (auto simp: recognised_levels_def opt_levels_def)

subsection \<open>The override loop\<close>

lemma process_overrides_skips_None:
  "dict_contains (options p) k \<Longrightarrow>
   process_overrides B (kw1 @ (k, PNone) # kw2) p = process_overrides B (kw1 @ kw2) p"
proof (induction kw1 arbitrary: p)
  case Nil
  then show ?case by simp
next
  case (Cons a kw1)
  obtain k' v' where a: "a = (k', v')" by (cases a)
  show ?case
  proof (cases "Properties_setattr B p k' v'")
    case (Inl e)
    with a Cons show ?thesis by simp
  next
    case (Inr p')
    with Cons.prems have "dict_contains (options p') k" by (simp add: setattr_contains)
    with a Inr Cons show ?thesis by simp
  qed
qed

lemma process_overrides_unknown_key:
  "\<not> dict_contains (options p) k \<Longrightarrow>
   \<exists>e p'. process_overrides B (kw1 @ (k, v) # kw2) p = (Some e, p')"
proof (induction kw1 arbitrary: p)
  case Nil
  then show ?case by simp
next
  case (Cons a kw1)
  obtain k' v' where a: "a = (k', v')" by (cases a)
  show ?case
  proof (cases "Properties_setattr B p k' v'")
    case (Inl e)
    with a Cons show ?thesis by simp
  next
    case (Inr p')
    with Cons.prems have "\<not> dict_contains (options p') k" by (simp add: setattr_contains)
    with a Inr Cons show ?thesis by simp
  qed
qed

lemma map_of_filter_key: "map_of (filter (\<lambda>kv. fst kv = k) kvs) k = map_of kvs k"
  by (induction kvs) auto

text \<open>
  With a recognised \<^verbatim>\<open>opt_level\<close> and \<^verbatim>\<open>enabled=True\<close>, a call that passes
  \<^verbatim>\<open>hard_override\<close> raises, wherever the keyword stands and whatever its value, and the
  only part of the shared state it has changed is \<^verbatim>\<open>opt_properties\<close>.
\<close>

lemma hard_override_kwarg_fails_when_enabled:
  assumes "opt_level \<in> recognised_levels"
  shows "\<exists>e p. initialize B ext models optimizers True opt_level
                 (kw1 @ (''hard_override'', v) # kw2) st
               = (Inl e, st\<lparr>opt_properties := Some p\<rparr>)"
proof -
  from preset_resolves [OF assms, of B] obtain preset p
    where look: "Option.bind opt_level (map_of opt_levels) = Some preset"
      and fresh: "preset B (Properties_init B) = Inr p"
      and keys: "map fst (options p) = option_keys"
    by blast
  have "\<not> dict_contains (options p) ''hard_override''"
    by (simp add: dict_contains_def keys option_keys_def)
  from process_overrides_unknown_key [OF this, of B kw1 v kw2]
  show ?thesis by (auto simp: initialize_def look fresh)
qed

section \<open>The claims\<close>

subsection \<open>Presets\<close>

text \<open>
  Claim C1. For each of the names \<^verbatim>\<open>"O0"\<close>, \<^verbatim>\<open>"O1"\<close>, \<^verbatim>\<open>"O2"\<close>, \<^verbatim>\<open>"O3"\<close>, the
  preset registered under that name in \<^verbatim>\<open>opt_levels\<close>, applied to a freshly constructed
  \<^verbatim>\<open>Properties\<close> object, returns without raising and leaves exactly the tabulated
  configuration: \<^verbatim>\<open>enabled\<close> is true, \<^verbatim>\<open>opt_level\<close> is the preset's own name, and the
  other five options have the values of the table (O0: fp32, false, unset, false, 1.0;
  O1: false, true, unset, false, "dynamic"; O2: fp16, false, true, true, "dynamic";
  O3: fp16, false, false, false, 1.0).
\<close>

theorem opt_level_presets:
  "map_option (\<lambda>preset. preset B (Properties_init B)) (map_of opt_levels ''O0'') =
     Some (Inr \<lparr>options =
       [(''enabled'', PBool True),
        (''opt_level'', PStr ''O0''),
        (''cast_model_type'', PDtype float32),
        (''patch_torch_functions'', PBool False),
        (''keep_batchnorm_fp32'', PNone),
        (''master_weights'', PBool False),
        (''loss_scale'', PFloat (float_one B))]\<rparr>)
   \<and> map_option (\<lambda>preset. preset B (Properties_init B)) (map_of opt_levels ''O1'') =
     Some (Inr \<lparr>options =
       [(''enabled'', PBool True),
        (''opt_level'', PStr ''O1''),
        (''cast_model_type'', PBool False),
        (''patch_torch_functions'', PBool True),
        (''keep_batchnorm_fp32'', PNone),
        (''master_weights'', PBool False),
        (''loss_scale'', PStr ''dynamic'')]\<rparr>)
   \<and> map_option (\<lambda>preset. preset B (Properties_init B)) (map_of opt_levels ''O2'') =
     Some (Inr \<lparr>options =
       [(''enabled'', PBool True),
        (''opt_level'', PStr ''O2''),
        (''cast_model_type'', PDtype float16),
        (''patch_torch_functions'', PBool False),
        (''keep_batchnorm_fp32'', PBool True),
        (''master_weights'', PBool True),
        (''loss_scale'', PStr ''dynamic'')]\<rparr>)
   \<and> map_option (\<lambda>preset. preset B (Properties_init B)) (map_of opt_levels ''O3'') =
     Some (Inr \<lparr>options =
       [(''enabled'', PBool True),
        (''opt_level'', PStr ''O3''),
        (''cast_model_type'', PDtype float16),
        (''patch_torch_functions'', PBool False),
        (''keep_batchnorm_fp32'', PBool False),
        (''master_weights'', PBool False),
        (''loss_scale'', PFloat (float_one B))]\<rparr>)"
  by (simp add: opt_levels_def O0_fresh O1_fresh O2_fresh O3_fresh)

subsection \<open>Coercion on \<^verbatim>\<open>set\<close> and the round trip through \<^verbatim>\<open>get\<close>\<close>

text \<open>
  Claim C2, as stated, says that setting \<^verbatim>\<open>loss_scale\<close> to a value that is not
  numeric-parsable fails with a type error. For a string that \<^verbatim>\<open>float\<close> cannot parse the
  source raises \<^verbatim>\<open>ValueError\<close>, not \<^verbatim>\<open>TypeError\<close>: \<^verbatim>\<open>p.loss_scale = "abc"\<close>.
\<close>

theorem loss_scale_unparsable_string_counterexample:
  "Properties_setattr exact_builtins (Properties_init exact_builtins) ''loss_scale''
     (PStr ''abc'') = Inl ValueError
   \<and> Properties_setattr exact_builtins (Properties_init exact_builtins) ''loss_scale''
     (PStr ''abc'') \<noteq> Inl TypeError"
  by (simp add: model_defs exact_parse_abc)

text \<open>
  Claim C2, amended. On a \<^verbatim>\<open>Properties\<close> object that has the option \<open>name\<close>, a
  \<^verbatim>\<open>set\<close> of \<open>v\<close> followed by a \<^verbatim>\<open>get\<close> of the same name gives, for every value \<open>v\<close>:
  for \<^verbatim>\<open>loss_scale\<close>, \<^verbatim>\<open>"dynamic"\<close> verbatim when \<open>v\<close> is that string and otherwise
  \<^verbatim>\<open>float(v)\<close>, failing with the error \<^verbatim>\<open>float\<close> raises: \<^verbatim>\<open>TypeError\<close> for \<^verbatim>\<open>None\<close>
  or a dtype, \<^verbatim>\<open>ValueError\<close> for a string that does not parse, \<^verbatim>\<open>OverflowError\<close> for
  an integer beyond the float range; for \<^verbatim>\<open>keep_batchnorm_fp32\<close>, \<^verbatim>\<open>True\<close> for the
  string \<^verbatim>\<open>"True"\<close>, \<^verbatim>\<open>False\<close> for \<^verbatim>\<open>"False"\<close>, \<open>v\<close> itself when it is a boolean or
  \<^verbatim>\<open>None\<close>, and otherwise an \<^verbatim>\<open>AssertionError\<close> whose message lists the allowed
  forms; for every other option, \<open>v\<close> itself.
\<close>

theorem setattr_coerces_and_roundtrips:
  assumes "dict_contains (options p) name"
  shows "(name = ''loss_scale'' \<longrightarrow> set_then_get B p name v = coerced_loss_scale B v)
       \<and> (name = ''keep_batchnorm_fp32'' \<longrightarrow>
            set_then_get B p name v = coerced_keep_batchnorm_fp32 v)
       \<and> (name \<noteq> ''loss_scale'' \<and> name \<noteq> ''keep_batchnorm_fp32'' \<longrightarrow>
            set_then_get B p name v = Inr v)"
proof (intro conjI impI)
  assume n: "name = ''loss_scale''"
  show "set_then_get B p name v = coerced_loss_scale B v"
  proof (cases "v = PStr ''dynamic''")
    case True
    with assms n show ?thesis
      by (simp add: set_then_get_def Properties_setattr_def getattr_store
            coerced_loss_scale_def)
  next
    case False
    have "set_then_get B p name v = and_then (py_float B v) (\<lambda>x. Inr (PFloat x))"
      using assms n False
      by (cases "py_float B v")
         (simp_all add: set_then_get_def Properties_setattr_def getattr_store)
    with False show ?thesis by (simp add: py_float_coerced)
  qed
next
  assume n: "name = ''keep_batchnorm_fp32''"
  with assms show "set_then_get B p name v = coerced_keep_batchnorm_fp32 v"
    by (cases v)
       (auto simp: set_then_get_def Properties_setattr_def getattr_store
          coerced_keep_batchnorm_fp32_def)
next
  assume "name \<noteq> ''loss_scale'' \<and> name \<noteq> ''keep_batchnorm_fp32''"
  with assms show "set_then_get B p name v = Inr v"
    by (simp add: set_then_get_def Properties_setattr_def getattr_store)
qed

text \<open>
  The theorem on a fresh object: \<^verbatim>\<open>"128.0"\<close> is read back as the float 128,
  \<^verbatim>\<open>"True"\<close> as the boolean, the integer 1 is refused for \<^verbatim>\<open>keep_batchnorm_fp32\<close>,
  and \<^verbatim>\<open>master_weights\<close> is stored as given.
\<close>

theorem setattr_coerces_and_roundtrips_witness:
  "dict_contains (options (Properties_init exact_builtins)) ''loss_scale''
   \<and> set_then_get exact_builtins (Properties_init exact_builtins) ''loss_scale''
        (PStr ''128.0'') = Inr (PFloat 128)
   \<and> dict_contains (options (Properties_init exact_builtins)) ''keep_batchnorm_fp32''
   \<and> set_then_get exact_builtins (Properties_init exact_builtins) ''keep_batchnorm_fp32''
        (PStr ''True'') = Inr (PBool True)
   \<and> set_then_get exact_builtins (Properties_init exact_builtins) ''keep_batchnorm_fp32''
        (PInt 1) = Inl (AssertionError keep_batchnorm_msg)
   \<and> dict_contains (options (Properties_init exact_builtins)) ''master_weights''
   \<and> set_then_get exact_builtins (Properties_init exact_builtins) ''master_weights''
        (PBool True) = Inr (PBool True)"
proof -
  let ?p = "Properties_init exact_builtins"
  have h1: "dict_contains (options ?p) ''loss_scale''"
    and h2: "dict_contains (options ?p) ''keep_batchnorm_fp32''"
    and h3: "dict_contains (options ?p) ''master_weights''"
    by (simp_all add: Properties_init_def dict_contains_def)
  show ?thesis
    using h1 h2 h3
      setattr_coerces_and_roundtrips [OF h1, of exact_builtins "PStr ''128.0''"]
      setattr_coerces_and_roundtrips [OF h2, of exact_builtins "PStr ''True''"]
      setattr_coerces_and_roundtrips [OF h2, of exact_builtins "PInt 1"]
      setattr_coerces_and_roundtrips [OF h3, of exact_builtins "PBool True"]
    by (simp add: coerced_loss_scale_def coerced_keep_batchnorm_fp32_def exact_parse_128)
qed

subsection \<open>Unrecognised option names\<close>

text \<open>
  Claim C3 says that both \<^verbatim>\<open>get\<close> and \<^verbatim>\<open>set\<close> of a name outside the recognised
  options fail with an unknown-option error. \<^verbatim>\<open>__getattr__\<close> does raise the
  \<^verbatim>\<open>AttributeError\<close> naming the key; \<^verbatim>\<open>__setattr__\<close> has no branch for a name that is
  not in \<^verbatim>\<open>self.options\<close>: \<^verbatim>\<open>p.foo = 1\<close> on a fresh object returns normally and leaves
  the object as it was.
\<close>

theorem setattr_unknown_key_is_dropped:
  "Properties_setattr B (Properties_init B) ''foo'' (PInt 1) = Inr (Properties_init B)
   \<and> Properties_getattr (Properties_init B) ''foo''
       = Inl (AttributeError
           (CHR 0x27 # ''Properties' object has no attribute 'foo'' @ [CHR 0x27]))"
  by (simp add: Properties_getattr_def no_attribute_def model_defs)

subsection \<open>\<^verbatim>\<open>initialize\<close> with a bad \<^verbatim>\<open>opt_level\<close>\<close>

text \<open>
  Claim C4. Every call of \<^verbatim>\<open>initialize\<close> with \<^verbatim>\<open>enabled=True\<close> whose \<^verbatim>\<open>opt_level\<close> is
  not one of \<^verbatim>\<open>"O0"\<close>, \<^verbatim>\<open>"O1"\<close>, \<^verbatim>\<open>"O2"\<close>, \<^verbatim>\<open>"O3"\<close> (the default \<^verbatim>\<open>None\<close> included)
  raises a \<^verbatim>\<open>RuntimeError\<close> whose message names the value passed and lists the four
  accepted values, and leaves the shared state exactly as it was, whatever the keyword
  arguments are.
\<close>

theorem initialize_bad_opt_level:
  assumes "opt_level \<notin> recognised_levels"
  shows "initialize B ext models optimizers True opt_level kwargs st
         = (Inl (RuntimeError (''Unexpected optimization level ''
                   @ (case opt_level of None \<Rightarrow> ''None'' | Some s \<Rightarrow> s)
                   @ ''. Options are 'O0', 'O1', 'O2', 'O3'.'')), st)"
  by (simp add: initialize_def bad_level_lookup [OF assms] format_opt_level_def
        options_are_def)

theorem initialize_bad_opt_level_witness:
  "Some ''O5'' \<notin> recognised_levels \<and> None \<notin> recognised_levels
   \<and> initialize exact_builtins pass_through ''model'' ''optim'' True (Some ''O5'')
        [(''loss_scale'', PStr ''128.0'')] AmpState_init
      = (Inl (RuntimeError
           ''Unexpected optimization level O5. Options are 'O0', 'O1', 'O2', 'O3'.''),
         AmpState_init)
   \<and> initialize exact_builtins pass_through ''model'' ''optim'' True None [] AmpState_init
      = (Inl (RuntimeError
           ''Unexpected optimization level None. Options are 'O0', 'O1', 'O2', 'O3'.''),
         AmpState_init)"
proof -
  have h1: "Some ''O5'' \<notin> recognised_levels" and h2: "None \<notin> recognised_levels"
    by (simp_all add: recognised_levels_def)
  show ?thesis
    using h1 h2
      initialize_bad_opt_level [OF h1, of exact_builtins pass_through "''model''" "''optim''"
        "[(''loss_scale'', PStr ''128.0'')]" AmpState_init]
      initialize_bad_opt_level [OF h2, of exact_builtins pass_through "''model''" "''optim''"
        "[]" AmpState_init]
    by simp
qed

subsection \<open>\<^verbatim>\<open>initialize\<close> with \<^verbatim>\<open>enabled=False\<close>\<close>

text \<open>
  Claim C5. Every call of \<^verbatim>\<open>initialize\<close> with \<^verbatim>\<open>enabled=False\<close>, whatever the
  \<^verbatim>\<open>opt_level\<close> and the other keyword arguments, returns the models and optimizers it
  was passed, sets the shared \<^verbatim>\<open>opt_properties\<close> to a fresh default \<^verbatim>\<open>Properties\<close>
  object, and, when \<^verbatim>\<open>hard_override\<close> is among the keyword arguments, stores its value
  in \<^verbatim>\<open>_amp_state.hard_override\<close>.
\<close>

theorem disabled_call_passes_through:
  "fst (initialize B ext models optimizers False opt_level kwargs st)
     = Inr (models, optimizers)
   \<and> opt_properties (snd (initialize B ext models optimizers False opt_level kwargs st))
     = Some (Properties_init B)
   \<and> (\<forall>v. map_of kwargs ''hard_override'' = Some v \<longrightarrow>
        hard_override (snd (initialize B ext models optimizers False opt_level kwargs st))
          = v)"
  by (simp add: initialize_def split: option.split)

theorem disabled_call_passes_through_witness:
  "map_of [(''hard_override'', PBool True)] ''hard_override'' = Some (PBool True)
   \<and> fst (initialize exact_builtins pass_through ''model'' ''optim'' False (Some ''O2'')
        [(''hard_override'', PBool True)] AmpState_init) = Inr (''model'', ''optim'')
   \<and> snd (initialize exact_builtins pass_through ''model'' ''optim'' False (Some ''O2'')
        [(''hard_override'', PBool True)] AmpState_init)
      = \<lparr>hard_override = PBool True,
         opt_properties = Some (Properties_init exact_builtins)\<rparr>"
proof -
  let ?r = "initialize exact_builtins pass_through ''model'' ''optim'' False (Some ''O2'')
              [(''hard_override'', PBool True)] AmpState_init"
  have h: "map_of [(''hard_override'', PBool True :: rat pyval)] ''hard_override''
             = Some (PBool True)"
    by simp
  have "fst ?r = Inr (''model'', ''optim'')"
    and "opt_properties (snd ?r) = Some (Properties_init exact_builtins)"
    and "hard_override (snd ?r) = PBool True"
    using h disabled_call_passes_through [of exact_builtins pass_through "''model''"
        "''optim''" "Some ''O2''" "[(''hard_override'', PBool True)]" AmpState_init]
    by blast+
  then show ?thesis using h by (cases "snd ?r") simp
qed

text \<open>
  Claim C10. A call of \<^verbatim>\<open>initialize\<close> with \<^verbatim>\<open>enabled=False\<close> validates nothing: it
  never raises, and its result is the one of the call with \<^verbatim>\<open>opt_level=None\<close> and with
  every keyword argument other than \<^verbatim>\<open>hard_override\<close> removed, so unrecognised keys and
  values that the enabled path would refuse have no effect. \<^verbatim>\<open>_initialize\<close> is not
  called either: the result is the same for any two implementations of it.
\<close>

theorem disabled_call_validates_nothing:
  "initialize B ext models optimizers False opt_level kwargs st
     = initialize B ext' models optimizers False None
         (filter (\<lambda>kv. fst kv = ''hard_override'') kwargs) st
   \<and> (\<exists>st'. initialize B ext models optimizers False opt_level kwargs st
              = (Inr (models, optimizers), st'))"
  by (simp add: initialize_def map_of_filter_key)

text \<open>
  On a call with a bad level, an unknown key, a \<^verbatim>\<open>loss_scale\<close> that does not parse and
  a \<^verbatim>\<open>keep_batchnorm_fp32\<close> of the wrong type.
\<close>

theorem disabled_call_validates_nothing_witness:
  "initialize exact_builtins pass_through ''model'' ''optim'' False (Some ''O5'')
     [(''no_such_option'', PInt 3), (''loss_scale'', PStr ''abc''),
      (''keep_batchnorm_fp32'', PInt 7)] AmpState_init
   = (Inr (''model'', ''optim''),
      \<lparr>hard_override = PBool False,
       opt_properties = Some (Properties_init exact_builtins)\<rparr>)"
  using disabled_call_validates_nothing [of exact_builtins pass_through "''model''"
      "''optim''" "Some ''O5''"
      "[(''no_such_option'', PInt 3), (''loss_scale'', PStr ''abc''),
        (''keep_batchnorm_fp32'', PInt 7)]" AmpState_init pass_through]
  by (simp add: initialize_def AmpState_init_def)

subsection \<open>Keyword overrides on the enabled path\<close>

text \<open>
  Claim C6 says that with \<^verbatim>\<open>enabled=True\<close> and a valid \<^verbatim>\<open>opt_level\<close> the keyword
  \<^verbatim>\<open>hard_override\<close> is accepted and sets the flag. On that path the source checks every
  keyword against the option table, where \<^verbatim>\<open>hard_override\<close> is not a key:
  \<^verbatim>\<open>initialize(model, optim, opt_level="O1", hard_override=True)\<close> in a fresh process
  raises \<^verbatim>\<open>RuntimeError("Unexpected kwarg hard_override")\<close> and the flag stays
  \<^verbatim>\<open>False\<close>, while the message of \<^verbatim>\<open>warn_or_err\<close> tells the user to supply exactly
  that keyword.
\<close>

theorem hard_override_rejected_when_enabled:
  "initialize B ext models optimizers True (Some ''O1'') [(''hard_override'', PBool True)]
     AmpState_init
   = (Inl (RuntimeError ''Unexpected kwarg hard_override''),
      \<lparr>hard_override = PBool False,
       opt_properties = Some \<lparr>options =
         [(''enabled'', PBool True),
          (''opt_level'', PStr ''O1''),
          (''cast_model_type'', PBool False),
          (''patch_torch_functions'', PBool True),
          (''keep_batchnorm_fp32'', PNone),
          (''master_weights'', PBool False),
          (''loss_scale'', PStr ''dynamic'')]\<rparr>\<rparr>)"
  by (simp add: initialize_def opt_levels_def O1_fresh AmpState_init_def dict_contains_def)

text \<open>
  Claim C7, as stated, says that the recognised-key check applies only to overrides whose
  value is not \<^verbatim>\<open>None\<close>. The source tests the key first and the value second:
  \<^verbatim>\<open>initialize(model, optim, opt_level="O1", no_such_option=None)\<close> raises, although
  the same call without the keyword returns.
\<close>

theorem None_override_unknown_key_counterexample:
  "fst (initialize exact_builtins pass_through ''model'' ''optim'' True (Some ''O1'')
          [(''no_such_option'', PNone)] AmpState_init)
     = Inl (RuntimeError ''Unexpected kwarg no_such_option'')
   \<and> fst (initialize exact_builtins pass_through ''model'' ''optim'' True (Some ''O1'')
          [] AmpState_init)
     = Inr (''model'', ''optim'')"
  by (simp add: initialize_def opt_levels_def O1_fresh dict_contains_def pass_through_def)

text \<open>
  Claim C7, amended. In a call of \<^verbatim>\<open>initialize\<close> with \<^verbatim>\<open>enabled=True\<close> and a valid
  \<^verbatim>\<open>opt_level\<close>, an override whose key is one of the seven recognised options and whose
  value is \<^verbatim>\<open>None\<close> is ignored: the call does exactly what the call without that
  override does, wherever the override stands among the others. The recognised-key check
  is applied to every override, whatever its value: a call with an override whose key is
  not recognised raises, and when that override comes first the error is
  \<^verbatim>\<open>RuntimeError("Unexpected kwarg <key>")\<close>.
\<close>

theorem None_override_skipped_after_key_check:
  assumes "opt_level \<in> recognised_levels"
  shows "(k \<in> set option_keys \<longrightarrow>
            initialize B ext models optimizers True opt_level (kw1 @ (k, PNone) # kw2) st
              = initialize B ext models optimizers True opt_level (kw1 @ kw2) st)
       \<and> (k \<notin> set option_keys \<longrightarrow>
            (\<exists>e st'. initialize B ext models optimizers True opt_level
                        (kw1 @ (k, v) # kw2) st = (Inl e, st'))
            \<and> fst (initialize B ext models optimizers True opt_level ((k, v) # kw2) st)
                = Inl (RuntimeError (''Unexpected kwarg '' @ k)))"
proof -
  from preset_resolves [OF assms, of B] obtain preset p
    where look: "Option.bind opt_level (map_of opt_levels) = Some preset"
      and fresh: "preset B (Properties_init B) = Inr p"
      and keys: "map fst (options p) = option_keys"
    by blast
  have contains: "dict_contains (options p) k \<longleftrightarrow> k \<in> set option_keys"
    by (simp add: dict_contains_def keys)
  show ?thesis
  proof (intro conjI impI)
    assume "k \<in> set option_keys"
    with contains have "dict_contains (options p) k" by simp
    from process_overrides_skips_None [OF this]
    show "initialize B ext models optimizers True opt_level (kw1 @ (k, PNone) # kw2) st
            = initialize B ext models optimizers True opt_level (kw1 @ kw2) st"
      by (simp add: initialize_def look fresh)
  next
    assume "k \<notin> set option_keys"
    with contains have no: "\<not> dict_contains (options p) k" by simp
    from process_overrides_unknown_key [OF no, of B kw1 v kw2]
    show "\<exists>e st'. initialize B ext models optimizers True opt_level
                     (kw1 @ (k, v) # kw2) st = (Inl e, st')"
      by (auto simp: initialize_def look fresh)
  next
    assume "k \<notin> set option_keys"
    with contains have no: "\<not> dict_contains (options p) k" by simp
    then show "fst (initialize B ext models optimizers True opt_level ((k, v) # kw2) st)
                 = Inl (RuntimeError (''Unexpected kwarg '' @ k))"
      by (simp add: initialize_def look fresh)
  qed
qed

theorem None_override_skipped_after_key_check_witness:
  "Some ''O2'' \<in> recognised_levels
   \<and> ''master_weights'' \<in> set option_keys
   \<and> initialize exact_builtins pass_through ''model'' ''optim'' True (Some ''O2'')
        [(''loss_scale'', PStr ''128.0''), (''master_weights'', PNone)] AmpState_init
      = initialize exact_builtins pass_through ''model'' ''optim'' True (Some ''O2'')
        [(''loss_scale'', PStr ''128.0'')] AmpState_init
   \<and> ''no_such_option'' \<notin> set option_keys
   \<and> fst (initialize exact_builtins pass_through ''model'' ''optim'' True (Some ''O2'')
        [(''no_such_option'', PInt 3)] AmpState_init)
      = Inl (RuntimeError ''Unexpected kwarg no_such_option'')"
proof -
  have h: "Some ''O2'' \<in> recognised_levels"
    and k1: "''master_weights'' \<in> set option_keys"
    and k2: "''no_such_option'' \<notin> set option_keys"
    by (simp_all add: recognised_levels_def option_keys_def)
  show ?thesis
    using h k1 k2
      None_override_skipped_after_key_check [OF h, of "''master_weights''" exact_builtins
        pass_through "''model''" "''optim''" "[(''loss_scale'', PStr ''128.0'')]" "[]"
        AmpState_init]
      None_override_skipped_after_key_check [OF h, of "''no_such_option''" exact_builtins
        pass_through "''model''" "''optim''" "[]" "[]" AmpState_init "PInt 3"]
    by simp
qed

text \<open>
  Claim C8. There is a call of \<^verbatim>\<open>initialize\<close> with \<^verbatim>\<open>enabled=True\<close>, a valid
  \<^verbatim>\<open>opt_level\<close> and two overrides that are not \<^verbatim>\<open>None\<close>, of which the first is applied
  and the second fails validation, after which the first override is still in the shared
  configuration: \<^verbatim>\<open>opt_level="O0", master_weights=True, keep_batchnorm_fp32="bad"\<close>
  raises the \<^verbatim>\<open>AssertionError\<close> of \<^verbatim>\<open>keep_batchnorm_fp32\<close> and leaves
  \<^verbatim>\<open>master_weights\<close> at \<^verbatim>\<open>True\<close>, where the preset O0 alone has \<^verbatim>\<open>False\<close>.
\<close>

theorem failed_override_not_rolled_back:
  "initialize B ext models optimizers True (Some ''O0'')
     [(''master_weights'', PBool True), (''keep_batchnorm_fp32'', PStr ''bad'')] st
   = (Inl (AssertionError keep_batchnorm_msg),
      st\<lparr>opt_properties := Some \<lparr>options =
         [(''enabled'', PBool True),
          (''opt_level'', PStr ''O0''),
          (''cast_model_type'', PDtype float32),
          (''patch_torch_functions'', PBool False),
          (''keep_batchnorm_fp32'', PNone),
          (''master_weights'', PBool True),
          (''loss_scale'', PFloat (float_one B))]\<rparr>\<rparr>)"
  by (simp add: initialize_def opt_levels_def O0_fresh Properties_setattr_def store_def
        dict_contains_def)

subsection \<open>\<^verbatim>\<open>warn_or_err\<close>\<close>

text \<open>
  Claim C9. For every message, \<^verbatim>\<open>warn_or_err\<close> returns normally, having printed the
  message as a warning, when \<^verbatim>\<open>_amp_state.hard_override\<close> is true, and raises a
  \<^verbatim>\<open>RuntimeError\<close>, printing nothing, when it is false; the error's message is the
  original message followed by guidance that contains \<^verbatim>\<open>hard_override=True\<close>.
\<close>

theorem warn_or_err_by_flag:
  "(py_truth B (hard_override st) \<longrightarrow>
      warn_or_err B st msg = (Inr (), [''Warning:  '' @ msg]))
   \<and> (\<not> py_truth B (hard_override st) \<longrightarrow>
      (\<exists>guidance before after.
         warn_or_err B st msg = (Inl (RuntimeError (msg @ guidance)), [])
         \<and> guidance = before @ ''hard_override=True'' @ after))"
proof (intro conjI impI)
  assume "py_truth B (hard_override st)"
  then show "warn_or_err B st msg = (Inr (), [''Warning:  '' @ msg])"
    by (simp add: warn_or_err_def)
next
  assume off: "\<not> py_truth B (hard_override st)"
  have "hard_override_hint
          = ''  If you're sure you know what you're doing, supply ''
              @ ''hard_override=True'' @ '' to amp.initialize.''"
    by (simp add: hard_override_hint_def)
  with off show "\<exists>guidance before after.
         warn_or_err B st msg = (Inl (RuntimeError (msg @ guidance)), [])
         \<and> guidance = before @ ''hard_override=True'' @ after"
    unfolding warn_or_err_def by (metis (full_types))
qed

theorem warn_or_err_by_flag_witness:
  "\<not> py_truth exact_builtins (hard_override (AmpState_init :: rat AmpState))
   \<and> fst (warn_or_err exact_builtins AmpState_init ''bad combination'')
      = Inl (RuntimeError (''bad combination'' @ hard_override_hint))
   \<and> py_truth exact_builtins (hard_override (AmpState_init\<lparr>hard_override := PBool True\<rparr>))
   \<and> warn_or_err exact_builtins (AmpState_init\<lparr>hard_override := PBool True\<rparr>)
        ''bad combination'' = (Inr (), [''Warning:  bad combination''])"
proof -
  have h1: "\<not> py_truth exact_builtins (hard_override (AmpState_init :: rat AmpState))"
    and h2: "py_truth exact_builtins
               (hard_override (AmpState_init\<lparr>hard_override := PBool True\<rparr>))"
    by (simp_all add: AmpState_init_def)
  from h1 warn_or_err_by_flag [of exact_builtins AmpState_init "''bad combination''"]
  obtain g where g: "warn_or_err exact_builtins AmpState_init ''bad combination''
                    = (Inl (RuntimeError (''bad combination'' @ g)), [])"
    by blast
  have "warn_or_err exact_builtins AmpState_init ''bad combination''
          = (Inl (RuntimeError (''bad combination'' @ hard_override_hint)), [])"
    using h1 by (simp add: warn_or_err_def)
  with g have "fst (warn_or_err exact_builtins AmpState_init ''bad combination'')
                   = Inl (RuntimeError (''bad combination'' @ hard_override_hint))"
    by simp
  moreover have "warn_or_err exact_builtins (AmpState_init\<lparr>hard_override := PBool True\<rparr>)
        ''bad combination'' = (Inr (), [''Warning:  bad combination''])"
    using h2 warn_or_err_by_flag [of exact_builtins "AmpState_init\<lparr>hard_override := PBool True\<rparr>"
        "''bad combination''"]
    by simp
  ultimately show ?thesis using h1 h2 by simp
qed

end
